theory Spec2Isabelle
  imports Complex_Main "HOL-Library.AList"
begin

section \<open>Numeric values of a pandas column\<close>

text \<open>
  A cell of a float64 column is a finite number, an infinity or NaN. The model keeps
  the three kinds apart and computes with finite numbers exactly (over the reals):
  rounding to binary64 and the sign of zero are not modelled, and of the overflow to
  an infinity only that of the floor division below. NaN propagates through
  arithmetic and makes every comparison false, as in numpy.
\<close>

datatype fval = Fin real | PInf | NInf | NaN

fun fneg :: "fval \<Rightarrow> fval" where
  "fneg (Fin a) = Fin (- a)"
| "fneg PInf = NInf"
| "fneg NInf = PInf"
| "fneg NaN = NaN"

fun fadd :: "fval \<Rightarrow> fval \<Rightarrow> fval" where
  "fadd NaN y = NaN"
| "fadd x NaN = NaN"
| "fadd (Fin a) (Fin b) = Fin (a + b)"
| "fadd PInf NInf = NaN"
| "fadd NInf PInf = NaN"
| "fadd PInf y = PInf"
| "fadd NInf y = NInf"
| "fadd (Fin a) y = y"

definition fsub :: "fval \<Rightarrow> fval \<Rightarrow> fval" where
  "fsub x y = fadd x (fneg y)"

text \<open>The sign of a non-NaN value: the infinities count as positive and negative.\<close>

fun fsgn :: "fval \<Rightarrow> int" where
  "fsgn (Fin a) = (if a > 0 then 1 else if a < 0 then - 1 else 0)"
| "fsgn PInf = 1"
| "fsgn NInf = - 1"
| "fsgn NaN = 0"

fun fmul :: "fval \<Rightarrow> fval \<Rightarrow> fval" where
  "fmul NaN y = NaN"
| "fmul x NaN = NaN"
| "fmul (Fin a) (Fin b) = Fin (a * b)"
| "fmul x y = (if fsgn x * fsgn y > 0 then PInf else if fsgn x * fsgn y < 0 then NInf else NaN)"

text \<open>
  Division of float64 arrays never raises: a finite non-zero number over zero is an
  infinity, zero over zero is NaN, a finite number over an infinity is zero.
\<close>

fun fdiv :: "fval \<Rightarrow> fval \<Rightarrow> fval" where
  "fdiv NaN y = NaN"
| "fdiv x NaN = NaN"
| "fdiv (Fin a) (Fin b) =
     (if b \<noteq> 0 then Fin (a / b) else if a > 0 then PInf else if a < 0 then NInf else NaN)"
| "fdiv (Fin a) y = Fin 0"
| "fdiv x (Fin b) = (if (b \<ge> 0) = (x = PInf) then PInf else NInf)"
| "fdiv x y = NaN"

fun fgt :: "fval \<Rightarrow> fval \<Rightarrow> bool" where
  "fgt NaN y = False"
| "fgt x NaN = False"
| "fgt (Fin a) (Fin b) = (a > b)"
| "fgt PInf y = (y \<noteq> PInf)"
| "fgt x NInf = (x \<noteq> NInf)"
| "fgt x y = False"

definition flt :: "fval \<Rightarrow> fval \<Rightarrow> bool" where
  "flt x y = fgt y x"

definition feq :: "fval \<Rightarrow> fval \<Rightarrow> bool" where
  "feq x y = (x \<noteq> NaN \<and> x = y)"


fun fsqrt :: "fval \<Rightarrow> fval" where
  "fsqrt (Fin a) = (if a < 0 then NaN else Fin (sqrt a))"
| "fsqrt PInf = PInf"
| "fsqrt x = NaN"

text \<open>
  The largest finite float64, \<open>(2 - 2\<^sup>-\<^sup>5\<^sup>2) \<times> 2\<^sup>1\<^sup>0\<^sup>2\<^sup>3\<close>, written out.
\<close>

definition float_max :: real where
  "float_max = 179769313486231570814527423731704356798070567525844996598917476803157260780028538760589558632766878171540458953514382464234321326889464182768467546703537516986049910576551282076245490090389328944075868508455133942304583236903222948165808559332123348274797826204144723168738177180919299881250404026184124858368"

text \<open>
  Floor division of numpy scalars (\<open>//\<close>): a zero divisor gives what true division
  gives, an infinite dividend gives NaN, an infinite divisor gives 0 or -1. The
  quotient of two finite numbers is formed before the floor is taken, and it is an
  infinity when it lies beyond the float64 range: a small enough divisor makes the
  result infinite. This is the one operation of the model that keeps the range of
  float64, because the share count of the ledger is computed with it.
\<close>

fun ffloordiv :: "fval \<Rightarrow> fval \<Rightarrow> fval" where
  "ffloordiv (Fin a) (Fin b) =
     (if b = 0 then fdiv (Fin a) (Fin b)
      else if a / b > float_max then PInf
      else if a / b < - float_max then NInf
      else Fin (of_int \<lfloor>a / b\<rfloor>))"
| "ffloordiv (Fin a) PInf = Fin (if a < 0 then - 1 else 0)"
| "ffloordiv (Fin a) NInf = Fin (if a > 0 then - 1 else 0)"
| "ffloordiv x y = NaN"

definition fmax :: "fval \<Rightarrow> fval \<Rightarrow> fval" where
  "fmax x y = (if fgt y x then y else x)"

definition fmin :: "fval \<Rightarrow> fval \<Rightarrow> fval" where
  "fmin x y = (if flt y x then y else x)"

section \<open>Series operations\<close>

text \<open>A column is the list of its cells, in index order.\<close>

definition fsum :: "fval list \<Rightarrow> fval" where
  "fsum xs = foldl fadd (Fin 0) xs"

text \<open>
  \<open>Series.rolling(window=w).mean()\<close>: cell \<open>i\<close> is the mean of the \<open>w\<close> cells
  ending at \<open>i\<close>; it is NaN while fewer than \<open>w\<close> cells are available and whenever
  the window holds a NaN (\<open>min_periods\<close> defaults to the window).
\<close>

definition rolling_mean :: "nat \<Rightarrow> fval list \<Rightarrow> fval list" where
  "rolling_mean w xs =
     map (\<lambda>i. if w = 0 \<or> i + 1 < w then NaN
              else fdiv (fsum (take w (drop (i + 1 - w) xs))) (Fin (real w)))
         [0..<length xs]"

text \<open>\<open>Series.diff()\<close>: the difference to the previous cell, NaN in the first row.\<close>

definition diff :: "fval list \<Rightarrow> fval list" where
  "diff xs = (if xs = [] then [] else NaN # map2 fsub (tl xs) (butlast xs))"

text \<open>\<open>Series.shift(1)\<close>: every cell moves one row down, NaN enters at the top.\<close>

definition shift1 :: "fval list \<Rightarrow> fval list" where
  "shift1 xs = (if xs = [] then [] else NaN # butlast xs)"

text \<open>
  \<open>Series.pct_change()\<close> on a column without NaN: the quotient to the previous
  cell minus one, NaN in the first row.
\<close>

definition pct_change :: "fval list \<Rightarrow> fval list" where
  "pct_change xs =
     (if xs = [] then []
      else NaN # map2 (\<lambda>x p. fsub (fdiv x p) (Fin 1)) (tl xs) (butlast xs))"

text \<open>
  \<open>Series.cumprod()\<close> skips NaN: a NaN cell stays NaN in the result and leaves
  the running product as it is.
\<close>

fun cumprod_from :: "fval \<Rightarrow> fval list \<Rightarrow> fval list" where
  "cumprod_from acc [] = []"
| "cumprod_from acc (x # xs) =
     (if x = NaN then NaN # cumprod_from acc xs
      else fmul acc x # cumprod_from (fmul acc x) xs)"

definition cumprod :: "fval list \<Rightarrow> fval list" where
  "cumprod xs = cumprod_from (Fin 1) xs"

text \<open>
  \<open>Series.ewm(span=s, adjust=False).mean()\<close> on a column of finite numbers: the first
  cell is copied, every later cell is \<open>(1 - \<alpha>) * previous + \<alpha> * cell\<close> with
  \<open>\<alpha> = 2 / (s + 1)\<close>.
\<close>

fun ewm_from :: "real \<Rightarrow> real \<Rightarrow> real list \<Rightarrow> real list" where
  "ewm_from \<alpha> y [] = []"
| "ewm_from \<alpha> y (x # xs) = ((1 - \<alpha>) * y + \<alpha> * x) # ewm_from \<alpha> ((1 - \<alpha>) * y + \<alpha> * x) xs"

fun ewm_mean :: "nat \<Rightarrow> real list \<Rightarrow> real list" where
  "ewm_mean s [] = []"
| "ewm_mean s (x # xs) = x # ewm_from (2 / (real s + 1)) x xs"

text \<open>\<open>Series.cummax()\<close> skips NaN in the same way as \<open>cumprod\<close>.\<close>

fun cummax_from :: "fval option \<Rightarrow> fval list \<Rightarrow> fval list" where
  "cummax_from acc [] = []"
| "cummax_from acc (x # xs) =
     (if x = NaN then NaN # cummax_from acc xs
      else (case acc of
              None \<Rightarrow> x # cummax_from (Some x) xs
            | Some m \<Rightarrow> fmax m x # cummax_from (Some (fmax m x)) xs))"

definition cummax :: "fval list \<Rightarrow> fval list" where
  "cummax xs = cummax_from None xs"

text \<open>
  \<open>Series.min()\<close>, \<open>Series.mean()\<close> and \<open>Series.std()\<close> drop the NaN cells first.
  The minimum and the mean of no cell are NaN; the sample standard deviation
  (\<open>ddof = 1\<close>) of fewer than two cells is NaN.
\<close>

definition dropna :: "fval list \<Rightarrow> fval list" where
  "dropna xs = filter (\<lambda>x. x \<noteq> NaN) xs"

definition series_min :: "fval list \<Rightarrow> fval" where
  "series_min xs = (case dropna xs of [] \<Rightarrow> NaN | y # ys \<Rightarrow> foldl fmin y ys)"

definition series_mean :: "fval list \<Rightarrow> fval" where
  "series_mean xs =
     (case dropna xs of [] \<Rightarrow> NaN | y # ys \<Rightarrow> fdiv (fsum (y # ys)) (Fin (real (length (y # ys)))))"

definition series_std :: "fval list \<Rightarrow> fval" where
  "series_std xs =
     (let ys = dropna xs; m = series_mean xs
      in if length ys < 2 then NaN
         else fsqrt (fdiv (fsum (map (\<lambda>y. fmul (fsub y m) (fsub y m)) ys))
                          (Fin (real (length ys - 1)))))"

section \<open>Frames\<close>

text \<open>
  A frame is the price table of one ticker, one row per trading day. The price
  columns \<open>Close\<close> and \<open>Open\<close> hold the finite prices the data provider delivered;
  the columns the program adds hold float64 cells and are kept by name, in the order
  of their creation. Assigning \<open>data[c] = v\<close> replaces column \<open>c\<close> where it stands or
  appends it. Reading a column that is absent raises \<open>KeyError\<close>; assigning to a slice
  a value of another length raises \<open>ValueError\<close>.
\<close>

record frame =
  Close :: "real list"
  Open :: "real list"
  cols :: "(string \<times> fval list) list"

datatype error = KeyError string | ValueError string

definition get_col :: "string \<Rightarrow> frame \<Rightarrow> error + fval list" where
  "get_col c data =
     (if c = ''Close'' then Inr (map Fin (Close data))
      else if c = ''Open'' then Inr (map Fin (Open data))
      else (case map_of (cols data) c of None \<Rightarrow> Inl (KeyError c) | Some v \<Rightarrow> Inr v))"

definition set_col :: "string \<Rightarrow> fval list \<Rightarrow> frame \<Rightarrow> frame" where
  "set_col c v data = data\<lparr>cols := AList.update c v (cols data)\<rparr>"

definition has_col :: "string \<Rightarrow> frame \<Rightarrow> bool" where
  "has_col c data = (map_of (cols data) c \<noteq> None)"

text \<open>Number of rows: the length of the index.\<close>

definition nrows :: "frame \<Rightarrow> nat" where
  "nrows data = length (Close data)"

text \<open>Every column of a frame has one cell per row.\<close>

definition wf_frame :: "frame \<Rightarrow> bool" where
  "wf_frame data =
     (length (Open data) = nrows data \<and> list_all (\<lambda>(c, v). length v = nrows data) (cols data))"

section \<open>The indicator engine\<close>

text \<open>
  The body of \<open>calculate_indicators\<close>: five columns are assigned to the frame it was
  given, one after the other. \<open>delta.where(c, 0)\<close> keeps a cell where \<open>c\<close> is true and
  writes 0 elsewhere, also where the cell is NaN (the comparison is false there).
\<close>

definition rsi_col :: "real list \<Rightarrow> fval list" where
  "rsi_col close =
     (let delta = diff (map Fin close);
          gain = rolling_mean 14 (map (\<lambda>d. if fgt d (Fin 0) then d else Fin 0) delta);
          loss = rolling_mean 14 (map (\<lambda>d. fneg (if flt d (Fin 0) then d else Fin 0)) delta);
          rs = map2 fdiv gain loss
      in map (\<lambda>r. fsub (Fin 100) (fdiv (Fin 100) (fadd (Fin 1) r))) rs)"

definition macd_col :: "real list \<Rightarrow> real list" where
  "macd_col close = map2 (-) (ewm_mean 12 close) (ewm_mean 26 close)"

definition calculate_indicators_frame :: "frame \<Rightarrow> frame" where
  "calculate_indicators_frame data =
     (let d1 = set_col ''SMA_20'' (rolling_mean 20 (map Fin (Close data))) data;
          d2 = set_col ''SMA_50'' (rolling_mean 50 (map Fin (Close d1))) d1;
          d3 = set_col ''RSI'' (rsi_col (Close d2)) d2;
          d4 = set_col ''MACD'' (map Fin (macd_col (Close d3))) d3;
          d5 = set_col ''Signal_Line'' (map Fin (ewm_mean 9 (macd_col (Close d4)))) d4
      in d5)"

text \<open>
  Frames are objects: a variable holds a reference into the store. The function
  assigns the columns to the frame its argument refers to and returns that reference.
\<close>

type_synonym store = "frame list"

definition calculate_indicators :: "nat \<Rightarrow> store \<Rightarrow> nat \<times> store" where
  "calculate_indicators r st = (r, st[r := calculate_indicators_frame (st ! r)])"

section \<open>Signals and the backtest\<close>

text \<open>
  The two moving averages: computed from \<open>Close\<close> with the window parameters when the
  frame has no column \<open>SMA_20\<close>, read from the columns \<open>SMA_20\<close> and \<open>SMA_50\<close> otherwise.
\<close>

definition sma_pair :: "frame \<Rightarrow> nat \<Rightarrow> nat \<Rightarrow> error + (fval list \<times> fval list)" where
  "sma_pair data sma_short sma_long =
     (if \<not> has_col ''SMA_20'' data then
        Inr (rolling_mean sma_short (map Fin (Close data)),
             rolling_mean sma_long (map Fin (Close data)))
      else (case get_col ''SMA_20'' data of
              Inl e \<Rightarrow> Inl e
            | Inr a \<Rightarrow> (case get_col ''SMA_50'' (set_col ''SMA_short'' a data) of
                         Inl e \<Rightarrow> Inl e
                       | Inr b \<Rightarrow> Inr (a, b))))"

text \<open>
  The slice assignment \<open>s[k:] = v\<close> to a column \<open>s\<close> of \<open>n\<close> cells. pandas compares the
  length of \<open>v\<close> with the length of the slice, which it computes as \<open>n - k\<close> in the
  integers, and raises \<open>ValueError\<close> when the two differ. A start \<open>k\<close> beyond the last
  row therefore raises whatever \<open>v\<close> is, the difference being negative. Otherwise the
  cells from row \<open>k\<close> on are replaced by \<open>v\<close>.
\<close>

definition slice_length_error :: error where
  "slice_length_error =
     ValueError ''cannot set using a slice indexer with a different length than the value''"

definition set_slice_from :: "nat \<Rightarrow> 'a list \<Rightarrow> 'a list \<Rightarrow> error + 'a list" where
  "set_slice_from k v s =
     (if int (length v) \<noteq> int (length s) - int k then Inl slice_length_error
      else Inr (take k s @ v))"

text \<open>
  The column \<open>Signal\<close> starts as 0 in every row; the rows from \<open>sma_short\<close> on are
  then overwritten with the comparison of the two averages (the slice assignment of
  the source, taken to write through to the frame).
\<close>

definition signal_col :: "nat \<Rightarrow> nat \<Rightarrow> fval list \<Rightarrow> fval list \<Rightarrow> error + int list" where
  "signal_col n sma_short short long =
     set_slice_from sma_short
       (map (\<lambda>(s, l). if fgt s l then 1 else 0)
            (zip (drop sma_short short) (drop sma_short long)))
       (replicate n 0)"

definition backtest_strategy_frame :: "frame \<Rightarrow> nat \<Rightarrow> nat \<Rightarrow> error + frame" where
  "backtest_strategy_frame data sma_short sma_long =
     (case sma_pair data sma_short sma_long of
        Inl e \<Rightarrow> Inl e
      | Inr (short, long) \<Rightarrow>
          (let d1 = set_col ''SMA_long'' long (set_col ''SMA_short'' short data)
           in case signal_col (nrows d1) sma_short short long of
                Inl e \<Rightarrow> Inl e
              | Inr cells \<Rightarrow>
                  (let signal = map (\<lambda>s. Fin (real_of_int s)) cells;
                       d2 = set_col ''Signal'' signal d1;
                       position = diff signal;
                       d3 = set_col ''Position'' position d2;
                       daily_return = pct_change (map Fin (Close d3));
                       d4 = set_col ''Daily_Return'' daily_return d3;
                       strategy_return = map2 fmul (shift1 position) daily_return;
                       d5 = set_col ''Strategy_Return'' strategy_return d4;
                       d6 = set_col ''Cumulative_Market''
                              (cumprod (map (fadd (Fin 1)) daily_return)) d5;
                       d7 = set_col ''Cumulative_Strategy''
                              (cumprod (map (fadd (Fin 1)) strategy_return)) d6
                   in Inr d7)))"

text \<open>
  \<open>backtest_strategy\<close> works on a copy: a new frame is allocated at the end of the
  store and the reference to it is returned.
\<close>

definition backtest_strategy :: "nat \<Rightarrow> nat \<Rightarrow> nat \<Rightarrow> store \<Rightarrow> error + (nat \<times> store)" where
  "backtest_strategy r sma_short sma_long st =
     (case backtest_strategy_frame (st ! r) sma_short sma_long of
        Inl e \<Rightarrow> Inl e
      | Inr d \<Rightarrow> Inr (length st, st @ [d]))"

section \<open>Risk analysis\<close>

definition drawdown :: "fval list \<Rightarrow> fval list" where
  "drawdown cs = map2 (\<lambda>c m. fdiv (fsub c m) m) cs (cummax cs)"

record risk =
  max_drawdown :: fval
  volatility :: fval
  sharpe_ratio :: fval

definition sharpe :: "fval list \<Rightarrow> fval" where
  "sharpe rs = fmul (fdiv (series_mean rs) (series_std rs)) (Fin (sqrt 252))"

definition risk_analysis :: "frame \<Rightarrow> error + risk" where
  "risk_analysis backtest_data =
     (case get_col ''Cumulative_Strategy'' backtest_data of
        Inl e \<Rightarrow> Inl e
      | Inr cs \<Rightarrow>
          (case get_col ''Strategy_Return'' backtest_data of
             Inl e \<Rightarrow> Inl e
           | Inr rs \<Rightarrow>
               Inr \<lparr>max_drawdown = series_min (drawdown cs),
                    volatility = fmul (series_std rs) (Fin (sqrt 252)),
                    sharpe_ratio = sharpe rs\<rparr>))"

section \<open>The paper-trading simulation\<close>

record account_row =
  Cash :: fval
  Shares :: fval
  Total :: fval

text \<open>
  One pass of the loop body, for row \<open>i\<close>: cash and shares are carried over from row
  \<open>i - 1\<close>, a buy or a sell at the opening price follows the cell of \<open>Position\<close>, and
  the total is cash plus the shares at the close. \<open>sim_row\<close> is the new row as a
  function of the previous one and of the cells of row \<open>i\<close>.
\<close>

definition sim_row :: "real \<Rightarrow> fval \<Rightarrow> real \<Rightarrow> real \<Rightarrow> account_row \<Rightarrow> account_row" where
  "sim_row commission position opn cls prev =
     (let cash0 = Cash prev;
          shares0 = Shares prev;
          shares_to_buy = ffloordiv cash0 (Fin opn);
          (cash, shares) =
            (if feq position (Fin 1) then
               (if fgt shares_to_buy (Fin 0)
                then (fsub cash0 (fadd (fmul shares_to_buy (Fin opn)) (Fin commission)),
                      fadd shares0 shares_to_buy)
                else (cash0, shares0))
             else if feq position (Fin (- 1)) then
               (if fgt shares0 (Fin 0)
                then (fadd cash0 (fsub (fmul shares0 (Fin opn)) (Fin commission)), Fin 0)
                else (cash0, shares0))
             else (cash0, shares0))
      in \<lparr>Cash = cash, Shares = shares, Total = fadd cash (fmul shares (Fin cls))\<rparr>)"

definition sim_step ::
  "real \<Rightarrow> fval list \<Rightarrow> real list \<Rightarrow> real list \<Rightarrow> nat \<Rightarrow> account_row list \<Rightarrow> account_row list"
where
  "sim_step commission position opens closes i account =
     account[i := sim_row commission (position ! i) (opens ! i) (closes ! i) (account ! (i - 1))]"

text \<open>
  The ledger has one row per row of the backtest frame, all set to the initial state;
  the loop then runs over the rows \<open>1, ..., n - 1\<close>. The column \<open>Position\<close> is read
  inside the loop only.
\<close>

definition run_simulation :: "real \<Rightarrow> real \<Rightarrow> frame \<Rightarrow> error + account_row list" where
  "run_simulation initial_capital commission data =
     (let account = replicate (nrows data)
                      \<lparr>Cash = Fin initial_capital, Shares = Fin 0, Total = Fin initial_capital\<rparr>
      in if nrows data < 2 then Inr account
         else (case get_col ''Position'' data of
                 Inl e \<Rightarrow> Inl e
               | Inr position \<Rightarrow>
                   Inr (fold (sim_step commission position (Open data) (Close data))
                             [1..<nrows data] account)))"





section \<open>Example frames\<close>

text \<open>A five-day price table and the frame the backtest makes of it with windows 1 and 2.\<close>

definition ex_frame :: frame where
  "ex_frame = \<lparr>Close = [1, 2, 1, 4, 2], Open = [1, 1, 1, 1, 1], cols = []\<rparr>"

definition ex_backtest :: frame where
  "ex_backtest = \<lparr>Close = [1, 2, 1, 4, 2], Open = [1, 1, 1, 1, 1],
        cols =
          [(''SMA_short'', [Fin 1, Fin 2, Fin 1, Fin 4, Fin 2]),
           (''SMA_long'', [NaN, Fin (3 / 2), Fin (3 / 2), Fin (5 / 2), Fin 3]),
           (''Signal'', [Fin 0, Fin 1, Fin 0, Fin 1, Fin 0]),
           (''Position'', [NaN, Fin 1, Fin (- 1), Fin 1, Fin (- 1)]),
           (''Daily_Return'', [NaN, Fin 1, Fin (- (1 / 2)), Fin 3, Fin (- (1 / 2))]),
           (''Strategy_Return'', [NaN, NaN, Fin (- (1 / 2)), Fin (- 3), Fin (- (1 / 2))]),
           (''Cumulative_Market'', [NaN, Fin 2, Fin 1, Fin 4, Fin 2]),
           (''Cumulative_Strategy'', [NaN, NaN, Fin (1 / 2), Fin (- 1), Fin (- (1 / 2))])]\<rparr>"


text \<open>The same price table after an indicator run left two average columns in it.\<close>

definition ex_sma_frame :: frame where
  "ex_sma_frame = \<lparr>Close = [1, 2, 1, 4, 2], Open = [1, 1, 1, 1, 1],
        cols = [(''SMA_20'', [Fin 5, Fin 5, Fin 0, Fin 0, Fin 5]),
                (''SMA_50'', [Fin 1, NaN, Fin 1, Fin 1, Fin 1])]\<rparr>"



text \<open>
  Two days with an opening price of \<open>2\<^sup>-\<^sup>1\<^sup>0\<^sup>2\<^sup>0\<close> on the second (a float64 number, with
  the power written out), and the frame the backtest makes of them with windows 1
  and 2.
\<close>

definition tiny_price :: real where
  "tiny_price = 1 / 11235582092889474423308157442431404585112356118389416079589380072358292237843810195794279832650471001320007117491962084853674360550901038905802964414967132773610493339054092829768888725077880882465817684505312860552384417646403930092119569408801702322709406917786643639996702871154982269052209770601514008576"



text \<open>Four days without a price change, and the frame the backtest makes of them with windows 1 and 2.\<close>

definition ex_flat_frame :: frame where
  "ex_flat_frame = \<lparr>Close = [1, 1, 1, 1], Open = [1, 1, 1, 1], cols = []\<rparr>"

definition ex_flat_backtest :: frame where
  "ex_flat_backtest = \<lparr>Close = [1, 1, 1, 1], Open = [1, 1, 1, 1],
        cols =
          [(''SMA_short'', [Fin 1, Fin 1, Fin 1, Fin 1]),
           (''SMA_long'', [NaN, Fin 1, Fin 1, Fin 1]),
           (''Signal'', [Fin 0, Fin 0, Fin 0, Fin 0]),
           (''Position'', [NaN, Fin 0, Fin 0, Fin 0]),
           (''Daily_Return'', [NaN, Fin 0, Fin 0, Fin 0]),
           (''Strategy_Return'', [NaN, NaN, Fin 0, Fin 0]),
           (''Cumulative_Market'', [NaN, Fin 1, Fin 1, Fin 1]),
           (''Cumulative_Strategy'', [NaN, NaN, Fin 1, Fin 1])]\<rparr>"



text \<open>A frame whose \<open>Position\<close> column holds no entry and no exit.\<close>

definition ex_quiet_frame :: frame where
  "ex_quiet_frame = \<lparr>Close = [10, 11, 12], Open = [10, 11, 12],
        cols = [(''Position'', [NaN, Fin 0, Fin 0])]\<rparr>"

section \<open>Facts about columns and frames\<close>

lemma get_col_set_same:
  "c \<noteq> ''Close'' \<Longrightarrow> c \<noteq> ''Open'' \<Longrightarrow> get_col c (set_col c v d) = Inr v"
  by (simp add: get_col_def set_col_def update_conv')

lemma get_col_set_other:
  "c \<noteq> c' \<Longrightarrow> get_col c (set_col c' v d) = get_col c d"
  by (simp add: get_col_def set_col_def update_conv')

lemma Close_set_col: "Close (set_col c v d) = Close d"
  by (simp add: set_col_def)

lemma Open_set_col: "Open (set_col c v d) = Open d"
  by (simp add: set_col_def)

lemma nrows_set_col: "nrows (set_col c v d) = nrows d"
  by (simp add: nrows_def set_col_def)

lemma signal_col_cases:
  assumes "length short = n" and "length long = n"
  shows "signal_col n w short long =
     (if w \<le> n
      then Inr (replicate w 0 @
                map (\<lambda>(s, l). if fgt s l then 1 else 0) (zip (drop w short) (drop w long)))
      else Inl slice_length_error)"
proof (cases "w \<le> n")
  case True
  then have "int (n - w) = int n - int w" by simp
  with True assms show ?thesis
    by (simp add: signal_col_def set_slice_from_def min_def)
next
  case False
  then have "int (n - w) \<noteq> int n - int w" by simp
  with False assms show ?thesis
    by (simp add: signal_col_def set_slice_from_def)
qed

lemma signal_col_cells:
  assumes "signal_col n w short long = Inr cells" and "length short = n" and "length long = n"
  shows "w \<le> n \<and> length cells = n \<and>
     (\<forall>i<n. cells ! i = (if i < w then 0 else if fgt (short ! i) (long ! i) then 1 else 0))"
proof -
  let ?v = "map (\<lambda>(s, l). if fgt s l then (1::int) else 0) (zip (drop w short) (drop w long))"
  from assms have w: "w \<le> n" and cells: "cells = replicate w 0 @ ?v"
    by (auto simp: signal_col_cases split: if_splits)
  from w assms(2,3) have len: "length cells = n" by (simp add: cells)
  have "cells ! i = (if i < w then 0 else if fgt (short ! i) (long ! i) then 1 else 0)"
    if i: "i < n" for i
  proof (cases "i < w")
    case True
    then show ?thesis by (simp add: cells nth_append)
  next
    case False
    with i assms(2,3) have "i - w < length (zip (drop w short) (drop w long))" by simp
    with False i assms(2,3) show ?thesis by (simp add: cells nth_append)
  qed
  with w len show ?thesis by blast
qed

lemma length_rolling_mean: "length (rolling_mean w xs) = length xs"
  by (simp add: rolling_mean_def)

lemma wf_frame_col:
  "wf_frame d \<Longrightarrow> map_of (cols d) c = Some v \<Longrightarrow> length v = nrows d"
  by (auto simp: wf_frame_def list_all_iff dest!: map_of_SomeD)

lemma sma_pair_lengths:
  assumes "sma_pair data w l = Inr (short, long)" "wf_frame data"
  shows "length short = nrows data \<and> length long = nrows data"
  using assms
  by (auto simp: sma_pair_def has_col_def get_col_def set_col_def update_conv' nrows_def
      length_rolling_mean split: if_splits option.splits dest: wf_frame_col)










lemma backtest_cols:
  assumes "backtest_strategy_frame data w l = Inr d"
  shows "\<exists>short long cells sg.
     sma_pair data w l = Inr (short, long) \<and>
     signal_col (nrows data) w short long = Inr cells \<and>
     sg = map (\<lambda>s. Fin (real_of_int s)) cells \<and>
     Close d = Close data \<and> Open d = Open data \<and>
     get_col ''SMA_short'' d = Inr short \<and>
     get_col ''SMA_long'' d = Inr long \<and>
     get_col ''Signal'' d = Inr sg \<and>
     get_col ''Position'' d = Inr (diff sg) \<and>
     get_col ''Daily_Return'' d = Inr (pct_change (map Fin (Close data))) \<and>
     get_col ''Strategy_Return'' d =
       Inr (map2 fmul (shift1 (diff sg)) (pct_change (map Fin (Close data)))) \<and>
     get_col ''Cumulative_Market'' d =
       Inr (cumprod (map (fadd (Fin 1)) (pct_change (map Fin (Close data))))) \<and>
     get_col ''Cumulative_Strategy'' d =
       Inr (cumprod (map (fadd (Fin 1))
              (map2 fmul (shift1 (diff sg)) (pct_change (map Fin (Close data))))))"
proof -
  from assms obtain short long where sp: "sma_pair data w l = Inr (short, long)"
    by (auto simp: backtest_strategy_frame_def split: sum.splits)
  with assms obtain cells where sc: "signal_col (nrows data) w short long = Inr cells"
    by (auto simp: backtest_strategy_frame_def Let_def nrows_set_col split: sum.splits)
  from assms sp sc show ?thesis
    by (auto simp: backtest_strategy_frame_def Let_def get_col_set_same get_col_set_other
        Close_set_col Open_set_col nrows_set_col)
qed

lemma backtest_of_signal:
  assumes "sma_pair data w l = Inr (short, long)"
    and "signal_col (nrows data) w short long = Inr cells"
  shows "\<exists>d. backtest_strategy_frame data w l = Inr d"
  using assms by (simp add: backtest_strategy_frame_def Let_def nrows_set_col)

lemma backtest_of_signal_error:
  assumes "sma_pair data w l = Inr (short, long)"
    and "signal_col (nrows data) w short long = Inl e"
  shows "backtest_strategy_frame data w l = Inl e"
  using assms by (simp add: backtest_strategy_frame_def Let_def nrows_set_col)

lemma ex_backtest_run: "backtest_strategy_frame ex_frame 1 2 = Inr ex_backtest"
  by code_simp

lemma ex_wf: "wf_frame ex_frame"
  by code_simp

lemma backtest_signal:
  assumes "backtest_strategy_frame data w l = Inr d" and "wf_frame data"
  shows "\<exists>short long sg.
     get_col ''SMA_short'' d = Inr short \<and> get_col ''SMA_long'' d = Inr long \<and>
     get_col ''Signal'' d = Inr sg \<and> get_col ''Position'' d = Inr (diff sg) \<and>
     w \<le> nrows data \<and> length sg = nrows data \<and>
     (\<forall>i<nrows data.
        sg ! i = (if i < w then Fin 0 else if fgt (short ! i) (long ! i) then Fin 1 else Fin 0))"
proof -
  from backtest_cols [OF assms(1)] obtain short long cells sg where
    sp: "sma_pair data w l = Inr (short, long)" and
    sc: "signal_col (nrows data) w short long = Inr cells" and
    sg: "sg = map (\<lambda>s. Fin (real_of_int s)) cells" and
    c1: "get_col ''SMA_short'' d = Inr short" and
    c2: "get_col ''SMA_long'' d = Inr long" and
    c3: "get_col ''Signal'' d = Inr sg" and
    c4: "get_col ''Position'' d = Inr (diff sg)"
    by blast
  from sma_pair_lengths [OF sp assms(2)] have
    ls: "length short = nrows data" and ll: "length long = nrows data" by simp_all
  from signal_col_cells [OF sc ls ll] have
    w: "w \<le> nrows data" and lc: "length cells = nrows data" and
    cells: "\<forall>i<nrows data.
       cells ! i = (if i < w then 0 else if fgt (short ! i) (long ! i) then 1 else 0)"
    by simp_all
  have len: "length sg = nrows data" by (simp add: sg lc)
  have "sg ! i = (if i < w then Fin 0 else if fgt (short ! i) (long ! i) then Fin 1 else Fin 0)"
    if i: "i < nrows data" for i
    using i lc cells [rule_format, OF i] by (simp add: sg)
  with c1 c2 c3 c4 w len show ?thesis by blast
qed

section \<open>The signal column\<close>

text \<open>
  Claim C3. In the frame a backtest returns, every cell of \<open>Signal\<close> is 0 or 1; the
  cells of the first \<open>sma_short\<close> rows are 0 whatever the averages are; from row
  \<open>sma_short\<close> on a cell is 1 exactly when the short average of the row is greater
  than the long one, the comparison with a NaN being false. A frame is returned only
  for a window \<open>sma_short\<close> of at most the number of rows: beyond that the slice
  assignment raises.
\<close>

theorem signal_values:
  assumes "backtest_strategy_frame data w l = Inr d" and "wf_frame data"
  shows "\<exists>short long sg.
     get_col ''SMA_short'' d = Inr short \<and> get_col ''SMA_long'' d = Inr long \<and>
     get_col ''Signal'' d = Inr sg \<and> length sg = nrows data \<and> w \<le> nrows data \<and>
     (\<forall>i<nrows data.
        (sg ! i = Fin 0 \<or> sg ! i = Fin 1) \<and>
        (i < w \<longrightarrow> sg ! i = Fin 0) \<and>
        (w \<le> i \<longrightarrow> sg ! i = (if fgt (short ! i) (long ! i) then Fin 1 else Fin 0)))"
proof -
  from backtest_signal [OF assms] obtain short long sg where
    c1: "get_col ''SMA_short'' d = Inr short" and
    c2: "get_col ''SMA_long'' d = Inr long" and
    c3: "get_col ''Signal'' d = Inr sg" and
    w: "w \<le> nrows data" and len: "length sg = nrows data" and
    cells: "\<forall>i<nrows data.
        sg ! i = (if i < w then Fin 0 else if fgt (short ! i) (long ! i) then Fin 1 else Fin 0)"
    by blast
  have "(sg ! i = Fin 0 \<or> sg ! i = Fin 1) \<and>
        (i < w \<longrightarrow> sg ! i = Fin 0) \<and>
        (w \<le> i \<longrightarrow> sg ! i = (if fgt (short ! i) (long ! i) then Fin 1 else Fin 0))"
    if i: "i < nrows data" for i
    using cells [rule_format, OF i] by simp
  with c1 c2 c3 len w show ?thesis by blast
qed

theorem signal_values_witness:
  "backtest_strategy_frame ex_frame 1 2 = Inr ex_backtest \<and> wf_frame ex_frame \<and>
   (\<exists>short long sg.
     get_col ''SMA_short'' ex_backtest = Inr short \<and> get_col ''SMA_long'' ex_backtest = Inr long \<and>
     get_col ''Signal'' ex_backtest = Inr sg \<and> length sg = nrows ex_frame \<and>
     sg ! 0 = Fin 0 \<and> sg ! 3 = (if fgt (short ! 3) (long ! 3) then Fin 1 else Fin 0))"
proof -
  have n: "nrows ex_frame = 5" by (simp add: nrows_def ex_frame_def)
  from signal_values [OF ex_backtest_run ex_wf] obtain short long sg where
    c: "get_col ''SMA_short'' ex_backtest = Inr short" "get_col ''SMA_long'' ex_backtest = Inr long"
       "get_col ''Signal'' ex_backtest = Inr sg" "length sg = nrows ex_frame" and
    a: "\<forall>i<nrows ex_frame.
        (sg ! i = Fin 0 \<or> sg ! i = Fin 1) \<and>
        (i < 1 \<longrightarrow> sg ! i = Fin 0) \<and>
        (1 \<le> i \<longrightarrow> sg ! i = (if fgt (short ! i) (long ! i) then Fin 1 else Fin 0))"
    by blast
  from n have i0: "0 < nrows ex_frame" and i3: "3 < nrows ex_frame" by simp_all
  from a [rule_format, OF i0] have "sg ! 0 = Fin 0" by simp
  moreover from a [rule_format, OF i3]
  have "sg ! 3 = (if fgt (short ! 3) (long ! 3) then Fin 1 else Fin 0)"
    by simp
  ultimately show ?thesis using c ex_backtest_run ex_wf by blast
qed

section \<open>Strategy returns\<close>



lemma sma_pair_existing:
  assumes "map_of (cols data) ''SMA_20'' = Some a" and "map_of (cols data) ''SMA_50'' = Some b"
  shows "sma_pair data w l = Inr (a, b)"
  using assms by (simp add: sma_pair_def has_col_def get_col_def set_col_def update_conv')

lemma sma_pair_fresh:
  assumes "map_of (cols data) ''SMA_20'' = None"
  shows "sma_pair data w l =
     Inr (rolling_mean w (map Fin (Close data)), rolling_mean l (map Fin (Close data)))"
  using assms by (simp add: sma_pair_def has_col_def)

lemma sma_pair_missing_long:
  assumes "map_of (cols data) ''SMA_20'' = Some a" and "map_of (cols data) ''SMA_50'' = None"
  shows "sma_pair data w l = Inl (KeyError ''SMA_50'')"
  using assms by (simp add: sma_pair_def has_col_def get_col_def set_col_def update_conv')

lemma backtest_of_sma_pair:
  assumes sp: "sma_pair data w l = Inr (short, long)" and wf: "wf_frame data"
  shows "(w \<le> nrows data \<longrightarrow>
       (\<exists>d sg. backtest_strategy_frame data w l = Inr d \<and>
          get_col ''SMA_short'' d = Inr short \<and> get_col ''SMA_long'' d = Inr long \<and>
          get_col ''Signal'' d = Inr sg \<and> length sg = nrows data \<and>
          (\<forall>i<nrows data.
             sg ! i = (if i < w then Fin 0
                       else if fgt (short ! i) (long ! i) then Fin 1 else Fin 0)))) \<and>
     (nrows data < w \<longrightarrow> backtest_strategy_frame data w l = Inl slice_length_error)"
proof (intro conjI impI)
  from sma_pair_lengths [OF sp wf] have
    ls: "length short = nrows data" and ll: "length long = nrows data" by simp_all
  {
    assume "nrows data < w"
    then have "signal_col (nrows data) w short long = Inl slice_length_error"
      by (simp add: signal_col_cases [OF ls ll])
    with sp show "backtest_strategy_frame data w l = Inl slice_length_error"
      by (rule backtest_of_signal_error)
  }
  {
    assume "w \<le> nrows data"
    then obtain cells where sc: "signal_col (nrows data) w short long = Inr cells"
      by (simp add: signal_col_cases [OF ls ll])
    from backtest_of_signal [OF sp sc] obtain d where
      d: "backtest_strategy_frame data w l = Inr d" by (elim exE)
    from backtest_signal [OF d wf] obtain short' long' sg where
      c1: "get_col ''SMA_short'' d = Inr short'" and
      c2: "get_col ''SMA_long'' d = Inr long'" and
      c3: "get_col ''Signal'' d = Inr sg" and len: "length sg = nrows data" and
      cells: "\<forall>i<nrows data.
        sg ! i = (if i < w then Fin 0 else if fgt (short' ! i) (long' ! i) then Fin 1 else Fin 0)"
      by blast
    from backtest_cols [OF d] sp c1 c2 have "short' = short" and "long' = long" by auto
    with d c1 c2 c3 len cells
    show "\<exists>d sg. backtest_strategy_frame data w l = Inr d \<and>
          get_col ''SMA_short'' d = Inr short \<and> get_col ''SMA_long'' d = Inr long \<and>
          get_col ''Signal'' d = Inr sg \<and> length sg = nrows data \<and>
          (\<forall>i<nrows data.
             sg ! i = (if i < w then Fin 0
                       else if fgt (short ! i) (long ! i) then Fin 1 else Fin 0))"
      by blast
  }
qed

lemma ex_sma_wf: "wf_frame ex_sma_frame"
  by code_simp

section \<open>Where the moving averages come from\<close>

text \<open>
  Claim C10. When the frame has the columns \<open>SMA_20\<close> and \<open>SMA_50\<close>, the backtest
  takes them as the short and the long average, whatever the window parameters are,
  and \<open>sma_short\<close> still is the first row of \<open>Signal\<close> that the comparison fills: the
  rows before it are 0, and a \<open>sma_short\<close> beyond the number of rows makes the slice
  assignment raise. When the frame has no column \<open>SMA_20\<close>, the averages are the
  rolling means of \<open>Close\<close> over \<open>sma_short\<close> and \<open>sma_long\<close> rows.
\<close>

theorem backtest_sma_source:
  assumes "wf_frame data"
  shows "(\<forall>a b. map_of (cols data) ''SMA_20'' = Some a \<and> map_of (cols data) ''SMA_50'' = Some b \<longrightarrow>
      (sma_short \<le> nrows data \<longrightarrow>
         (\<exists>d sg. backtest_strategy_frame data sma_short sma_long = Inr d \<and>
            get_col ''SMA_short'' d = Inr a \<and> get_col ''SMA_long'' d = Inr b \<and>
            get_col ''Signal'' d = Inr sg \<and> length sg = nrows data \<and>
            (\<forall>i<nrows data.
               sg ! i = (if i < sma_short then Fin 0
                         else if fgt (a ! i) (b ! i) then Fin 1 else Fin 0)))) \<and>
      (nrows data < sma_short \<longrightarrow>
         backtest_strategy_frame data sma_short sma_long = Inl slice_length_error)) \<and>
   (map_of (cols data) ''SMA_20'' = None \<longrightarrow>
      (sma_short \<le> nrows data \<longrightarrow>
         (\<exists>d sg. backtest_strategy_frame data sma_short sma_long = Inr d \<and>
            get_col ''SMA_short'' d = Inr (rolling_mean sma_short (map Fin (Close data))) \<and>
            get_col ''SMA_long'' d = Inr (rolling_mean sma_long (map Fin (Close data))) \<and>
            get_col ''Signal'' d = Inr sg \<and> length sg = nrows data \<and>
            (\<forall>i<nrows data.
               sg ! i = (if i < sma_short then Fin 0
                         else if fgt (rolling_mean sma_short (map Fin (Close data)) ! i)
                                     (rolling_mean sma_long (map Fin (Close data)) ! i)
                              then Fin 1 else Fin 0)))) \<and>
      (nrows data < sma_short \<longrightarrow>
         backtest_strategy_frame data sma_short sma_long = Inl slice_length_error))"
    (is "(\<forall>a b. ?H a b \<longrightarrow> ?C a b) \<and> (?N \<longrightarrow> ?F)")
proof (rule conjI)
  show "\<forall>a b. ?H a b \<longrightarrow> ?C a b"
  proof (intro allI, rule impI)
    fix a b
    assume "?H a b"
    then have "sma_pair data sma_short sma_long = Inr (a, b)"
      by (simp add: sma_pair_existing)
    from backtest_of_sma_pair [OF this assms] show "?C a b" .
  qed
  show "?N \<longrightarrow> ?F"
  proof (rule impI)
    assume ?N
    then have "sma_pair data sma_short sma_long =
       Inr (rolling_mean sma_short (map Fin (Close data)),
            rolling_mean sma_long (map Fin (Close data)))"
      by (rule sma_pair_fresh)
    from backtest_of_sma_pair [OF this assms] show ?F .
  qed
qed

theorem backtest_sma_source_witness:
  "wf_frame ex_sma_frame \<and>
   map_of (cols ex_sma_frame) ''SMA_20'' = Some [Fin 5, Fin 5, Fin 0, Fin 0, Fin 5] \<and>
   map_of (cols ex_sma_frame) ''SMA_50'' = Some [Fin 1, NaN, Fin 1, Fin 1, Fin 1] \<and>
   (\<exists>d sg. backtest_strategy_frame ex_sma_frame 3 4 = Inr d \<and>
        get_col ''SMA_short'' d = Inr [Fin 5, Fin 5, Fin 0, Fin 0, Fin 5] \<and>
        get_col ''SMA_long'' d = Inr [Fin 1, NaN, Fin 1, Fin 1, Fin 1] \<and>
        get_col ''Signal'' d = Inr sg \<and> sg ! 0 = Fin 0 \<and> sg ! 1 = Fin 0 \<and> sg ! 4 = Fin 1) \<and>
   backtest_strategy_frame ex_sma_frame 6 7 = Inl slice_length_error \<and>
   wf_frame ex_frame \<and> map_of (cols ex_frame) ''SMA_20'' = None \<and>
   (\<exists>d sg. backtest_strategy_frame ex_frame 1 2 = Inr d \<and>
        get_col ''SMA_short'' d = Inr (rolling_mean 1 (map Fin (Close ex_frame))) \<and>
        get_col ''SMA_long'' d = Inr (rolling_mean 2 (map Fin (Close ex_frame))) \<and>
        get_col ''Signal'' d = Inr sg \<and> sg ! 0 = Fin 0)"
proof -
  have a: "map_of (cols ex_sma_frame) ''SMA_20'' = Some [Fin 5, Fin 5, Fin 0, Fin 0, Fin 5]"
    and b: "map_of (cols ex_sma_frame) ''SMA_50'' = Some [Fin 1, NaN, Fin 1, Fin 1, Fin 1]"
    and c: "map_of (cols ex_frame) ''SMA_20'' = None"
    by (simp_all add: ex_sma_frame_def ex_frame_def)
  have n: "nrows ex_sma_frame = 5" and n': "nrows ex_frame = 5"
    by (simp_all add: nrows_def ex_sma_frame_def ex_frame_def)
  note src = backtest_sma_source [OF ex_sma_wf, of 3 4, THEN conjunct1, rule_format, OF conjI [OF a b]]
  have "(3::nat) \<le> nrows ex_sma_frame" by (simp add: n)
  from src [THEN conjunct1, rule_format, OF this] obtain d sg where
    d: "backtest_strategy_frame ex_sma_frame 3 4 = Inr d" and
    d1: "get_col ''SMA_short'' d = Inr [Fin 5, Fin 5, Fin 0, Fin 0, Fin 5]" and
    d2: "get_col ''SMA_long'' d = Inr [Fin 1, NaN, Fin 1, Fin 1, Fin 1]" and
    d3: "get_col ''Signal'' d = Inr sg" and
    cells: "\<forall>i<nrows ex_sma_frame.
       sg ! i = (if i < 3 then Fin 0
                 else if fgt ([Fin 5, Fin 5, Fin 0, Fin 0, Fin 5] ! i)
                             ([Fin 1, NaN, Fin 1, Fin 1, Fin 1] ! i) then Fin 1 else Fin 0)"
    by (elim exE conjE)
  have "(0::nat) < nrows ex_sma_frame" by (simp add: n)
  from cells [rule_format, OF this] have s0: "sg ! 0 = Fin 0" by simp
  have "(1::nat) < nrows ex_sma_frame" by (simp add: n)
  from cells [rule_format, OF this] have s1: "sg ! 1 = Fin 0" by simp
  have "(4::nat) < nrows ex_sma_frame" by (simp add: n)
  from cells [rule_format, OF this] have s4: "sg ! 4 = Fin 1" by simp
  have p: "\<exists>d sg. backtest_strategy_frame ex_sma_frame 3 4 = Inr d \<and>
        get_col ''SMA_short'' d = Inr [Fin 5, Fin 5, Fin 0, Fin 0, Fin 5] \<and>
        get_col ''SMA_long'' d = Inr [Fin 1, NaN, Fin 1, Fin 1, Fin 1] \<and>
        get_col ''Signal'' d = Inr sg \<and> sg ! 0 = Fin 0 \<and> sg ! 1 = Fin 0 \<and> sg ! 4 = Fin 1"
    by (rule exI [of _ d], rule exI [of _ sg]) (intro conjI d d1 d2 d3 s0 s1 s4)
  note src' = backtest_sma_source [OF ex_sma_wf, of 6 7, THEN conjunct1, rule_format, OF conjI [OF a b]]
  have "nrows ex_sma_frame < 6" by (simp add: n)
  from src' [THEN conjunct2, rule_format, OF this]
  have e: "backtest_strategy_frame ex_sma_frame 6 7 = Inl slice_length_error" .
  note fresh = backtest_sma_source [OF ex_wf, of 1 2, THEN conjunct2, rule_format, OF c]
  have "(1::nat) \<le> nrows ex_frame" by (simp add: n')
  from fresh [THEN conjunct1, rule_format, OF this] obtain d' sg' where
    f: "backtest_strategy_frame ex_frame 1 2 = Inr d'" and
    f1: "get_col ''SMA_short'' d' = Inr (rolling_mean 1 (map Fin (Close ex_frame)))" and
    f2: "get_col ''SMA_long'' d' = Inr (rolling_mean 2 (map Fin (Close ex_frame)))" and
    f3: "get_col ''Signal'' d' = Inr sg'" and
    cells': "\<forall>i<nrows ex_frame.
       sg' ! i = (if i < 1 then Fin 0
                 else if fgt (rolling_mean 1 (map Fin (Close ex_frame)) ! i)
                             (rolling_mean 2 (map Fin (Close ex_frame)) ! i)
                      then Fin 1 else Fin 0)"
    by (elim exE conjE)
  have "(0::nat) < nrows ex_frame" by (simp add: n')
  from cells' [rule_format, OF this] have t0: "sg' ! 0 = Fin 0" by simp
  have q: "\<exists>d sg. backtest_strategy_frame ex_frame 1 2 = Inr d \<and>
        get_col ''SMA_short'' d = Inr (rolling_mean 1 (map Fin (Close ex_frame))) \<and>
        get_col ''SMA_long'' d = Inr (rolling_mean 2 (map Fin (Close ex_frame))) \<and>
        get_col ''Signal'' d = Inr sg \<and> sg ! 0 = Fin 0"
    by (rule exI [of _ d'], rule exI [of _ sg']) (intro conjI f f1 f2 f3 t0)
  show ?thesis
    by (intro conjI ex_sma_wf a b p e ex_wf c q)
qed

section \<open>The account ledger\<close>

lemma fold_rows_invariant:
  assumes f: "\<And>i acc. f i acc = acc[i := g i (acc ! (i - 1))]"
    and P0: "P r0"
    and Pstep: "\<And>i r. 1 \<le> i \<Longrightarrow> i < n \<Longrightarrow> P r \<Longrightarrow> P (g i r)"
  shows "length (fold f [1..<k] (replicate n r0)) = n \<and>
         (\<forall>j<n. P (fold f [1..<k] (replicate n r0) ! j)) \<and>
         (0 < n \<longrightarrow> fold f [1..<k] (replicate n r0) ! 0 = r0)"
proof (induction k)
  case 0
  show ?case using P0 by simp
next
  case (Suc k)
  let ?acc = "fold f [1..<k] (replicate n r0)"
  show ?case
  proof (cases "1 \<le> k")
    case False
    then show ?thesis using P0 by simp
  next
    case True
    then have step: "fold f [1..<Suc k] (replicate n r0) = ?acc[k := g k (?acc ! (k - 1))]"
      by (simp add: f)
    from Suc.IH have len: "length ?acc = n" and all: "\<forall>j<n. P (?acc ! j)"
      and zero: "0 < n \<longrightarrow> ?acc ! 0 = r0" by simp_all
    have "P (?acc[k := g k (?acc ! (k - 1))] ! j)" if j: "j < n" for j
    proof (cases "j = k")
      case True
      with j have "k - 1 < n" by simp
      with all have "P (?acc ! (k - 1))" by simp
      with \<open>1 \<le> k\<close> j True have "P (g k (?acc ! (k - 1)))" by (simp add: Pstep)
      with True j len show ?thesis by simp
    next
      case False
      with all j show ?thesis by simp
    qed
    moreover from True zero have "0 < n \<longrightarrow> ?acc[k := g k (?acc ! (k - 1))] ! 0 = r0"
      by simp
    ultimately show ?thesis using len by (simp only: step length_list_update) simp
  qed
qed

lemma fold_rows_length:
  assumes "\<And>i acc. f i acc = acc[i := g i (acc ! (i - 1))]"
  shows "length (fold f [1..<k] (replicate n r0)) = n"
  using fold_rows_invariant [of f g "\<lambda>r. True" r0 n k, OF assms TrueI TrueI]
  by (rule conjunct1)

lemma fold_rows_first:
  assumes "\<And>i acc. f i acc = acc[i := g i (acc ! (i - 1))]" and "0 < n"
  shows "fold f [1..<k] (replicate n r0) ! 0 = r0"
  using fold_rows_invariant [of f g "\<lambda>r. True" r0 n k, OF assms(1) TrueI TrueI] assms(2)
  by blast

lemma fold_rows_all:
  assumes "\<And>i acc. f i acc = acc[i := g i (acc ! (i - 1))]"
    and "P r0"
    and "\<And>i r. 1 \<le> i \<Longrightarrow> i < n \<Longrightarrow> P r \<Longrightarrow> P (g i r)"
    and "j < n"
  shows "P (fold f [1..<k] (replicate n r0) ! j)"
  using fold_rows_invariant [of f g P r0 n k, OF assms(1,2,3)] assms(4)
  by blast

lemma run_simulation_fold:
  assumes "get_col ''Position'' data = Inr pos"
  shows "run_simulation ic c data =
     Inr (fold (sim_step c pos (Open data) (Close data)) [1..<nrows data]
            (replicate (nrows data) \<lparr>Cash = Fin ic, Shares = Fin 0, Total = Fin ic\<rparr>))"
  using assms by (simp add: run_simulation_def Let_def)

lemma sim_row_no_trade:
  assumes "p \<noteq> Fin 1" and "p \<noteq> Fin (- 1)"
  shows "sim_row c p opn cls \<lparr>Cash = Fin ic, Shares = Fin 0, Total = Fin ic\<rparr> =
         \<lparr>Cash = Fin ic, Shares = Fin 0, Total = Fin ic\<rparr>"
  using assms by (simp add: sim_row_def feq_def Let_def)

lemma ex_quiet_position: "get_col ''Position'' ex_quiet_frame = Inr [NaN, Fin 0, Fin 0]"
  by (simp add: get_col_def ex_quiet_frame_def)

lemma ex_quiet_nrows: "nrows ex_quiet_frame = 3"
  by (simp add: nrows_def ex_quiet_frame_def)

lemma ex_quiet_no_trades:
  "\<forall>i. 1 \<le> i \<and> i < nrows ex_quiet_frame \<longrightarrow>
      [NaN, Fin 0, Fin 0] ! i \<noteq> Fin 1 \<and> [NaN, Fin 0, Fin 0] ! i \<noteq> Fin (- 1)"
  unfolding ex_quiet_nrows by (auto simp: less_Suc_eq numeral_3_eq_3)

text \<open>
  Claim C4. When the backtest frame has a \<open>Position\<close> column, the simulation returns a
  ledger with one row per bar. Row 0 holds the initial capital as cash and as total and
  no shares. When no cell of \<open>Position\<close> after row 0 is 1 or -1, the total of every row
  is the initial capital.
\<close>

theorem ledger_without_trades:
  assumes "get_col ''Position'' data = Inr pos"
  shows "\<exists>account. run_simulation ic c data = Inr account \<and> length account = nrows data \<and>
     (0 < nrows data \<longrightarrow>
        Cash (account ! 0) = Fin ic \<and> Shares (account ! 0) = Fin 0 \<and>
        Total (account ! 0) = Fin ic) \<and>
     ((\<forall>i. 1 \<le> i \<and> i < nrows data \<longrightarrow> pos ! i \<noteq> Fin 1 \<and> pos ! i \<noteq> Fin (- 1)) \<longrightarrow>
      (\<forall>i<nrows data. Total (account ! i) = Fin ic))"
proof -
  let ?r0 = "\<lparr>Cash = Fin ic, Shares = Fin 0, Total = Fin ic\<rparr>"
  let ?f = "sim_step c pos (Open data) (Close data)"
  let ?g = "\<lambda>i. sim_row c (pos ! i) (Open data ! i) (Close data ! i)"
  let ?acc = "fold ?f [1..<nrows data] (replicate (nrows data) ?r0)"
  have f: "?f i acc = acc[i := ?g i (acc ! (i - 1))]" for i acc
    by (simp add: sim_step_def)
  have run: "run_simulation ic c data = Inr ?acc"
    by (rule run_simulation_fold [OF assms])
  have len: "length ?acc = nrows data"
    by (rule fold_rows_length [of ?f ?g, OF f])
  have z: "0 < nrows data \<longrightarrow>
        Cash (?acc ! 0) = Fin ic \<and> Shares (?acc ! 0) = Fin 0 \<and> Total (?acc ! 0) = Fin ic"
  proof
    assume "0 < nrows data"
    then have "?acc ! 0 = ?r0" by (rule fold_rows_first [of ?f ?g, OF f])
    then show "Cash (?acc ! 0) = Fin ic \<and> Shares (?acc ! 0) = Fin 0 \<and> Total (?acc ! 0) = Fin ic"
      by (simp only: account_row.simps simp_thms)
  qed
  have q: "(\<forall>i. 1 \<le> i \<and> i < nrows data \<longrightarrow> pos ! i \<noteq> Fin 1 \<and> pos ! i \<noteq> Fin (- 1)) \<longrightarrow>
      (\<forall>i<nrows data. Total (?acc ! i) = Fin ic)"
  proof (intro impI allI)
    fix j
    assume nt: "\<forall>i. 1 \<le> i \<and> i < nrows data \<longrightarrow> pos ! i \<noteq> Fin 1 \<and> pos ! i \<noteq> Fin (- 1)"
      and j: "j < nrows data"
    have step: "?g i r = ?r0" if "1 \<le> i" "i < nrows data" "r = ?r0" for i r
      using that nt by (simp add: sim_row_no_trade)
    have "?acc ! j = ?r0"
      by (rule fold_rows_all [of ?f ?g "\<lambda>r. r = ?r0", OF f refl step j])
    then show "Total (?acc ! j) = Fin ic"
      by (simp only: account_row.simps)
  qed
  show ?thesis
    by (rule exI [of _ ?acc]) (intro conjI run len z q)
qed

theorem ledger_without_trades_witness:
  "get_col ''Position'' ex_quiet_frame = Inr [NaN, Fin 0, Fin 0] \<and>
   (\<exists>account. run_simulation 1000 5 ex_quiet_frame = Inr account \<and> length account = 3 \<and>
      Cash (account ! 0) = Fin 1000 \<and> Shares (account ! 0) = Fin 0 \<and>
      Total (account ! 0) = Fin 1000 \<and> Total (account ! 1) = Fin 1000 \<and>
      Total (account ! 2) = Fin 1000)"
proof -
  from ledger_without_trades [OF ex_quiet_position, of 1000 5] obtain account where
    all: "run_simulation 1000 5 ex_quiet_frame = Inr account \<and>
       length account = nrows ex_quiet_frame \<and>
       (0 < nrows ex_quiet_frame \<longrightarrow>
        Cash (account ! 0) = Fin 1000 \<and> Shares (account ! 0) = Fin 0 \<and>
        Total (account ! 0) = Fin 1000) \<and>
       ((\<forall>i. 1 \<le> i \<and> i < nrows ex_quiet_frame \<longrightarrow>
            [NaN, Fin 0, Fin 0] ! i \<noteq> Fin 1 \<and> [NaN, Fin 0, Fin 0] ! i \<noteq> Fin (- 1)) \<longrightarrow>
        (\<forall>i<nrows ex_quiet_frame. Total (account ! i) = Fin 1000))"
    by (elim exE)
  from all have run: "run_simulation 1000 5 ex_quiet_frame = Inr account" by (elim conjE)
  from all have len: "length account = 3" unfolding ex_quiet_nrows by (elim conjE)
  from all have "0 < nrows ex_quiet_frame \<longrightarrow>
        Cash (account ! 0) = Fin 1000 \<and> Shares (account ! 0) = Fin 0 \<and>
        Total (account ! 0) = Fin 1000" by (elim conjE)
  then have z: "Cash (account ! 0) = Fin 1000 \<and> Shares (account ! 0) = Fin 0 \<and>
        Total (account ! 0) = Fin 1000" unfolding ex_quiet_nrows by simp
  from all have "(\<forall>i. 1 \<le> i \<and> i < nrows ex_quiet_frame \<longrightarrow>
            [NaN, Fin 0, Fin 0] ! i \<noteq> Fin 1 \<and> [NaN, Fin 0, Fin 0] ! i \<noteq> Fin (- 1)) \<longrightarrow>
        (\<forall>i<nrows ex_quiet_frame. Total (account ! i) = Fin 1000)" by (elim conjE)
  from this ex_quiet_no_trades have "\<forall>i<nrows ex_quiet_frame. Total (account ! i) = Fin 1000"
    by (rule mp)
  then have t: "\<forall>i<3. Total (account ! i) = Fin 1000" unfolding ex_quiet_nrows .
  from t have t1: "Total (account ! 1) = Fin 1000" by simp
  from t have t2: "Total (account ! 2) = Fin 1000" by simp
  show ?thesis
    apply (rule conjI [OF ex_quiet_position])
    apply (rule exI [of _ account])
    using run len z t1 t2 by (simp only: simp_thms)
qed




lemma float_max_value: "float_max = (2 - 1 / 2 ^ 52) * 2 ^ 1023"
  by (simp add: float_max_def)


















lemma tiny_price_value: "tiny_price = 1 / 2 ^ 1020"
  by (simp add: tiny_price_def)








lemma map_of_set_col:
  "map_of (cols (set_col c v d)) = (map_of (cols d))(c \<mapsto> v)"
  by (simp add: set_col_def update_conv')

lemma calculate_indicators_frame_prices:
  "Close (calculate_indicators_frame d) = Close d \<and> Open (calculate_indicators_frame d) = Open d"
  by (simp add: calculate_indicators_frame_def Let_def Close_set_col Open_set_col)

lemma calculate_indicators_frame_cols:
  "map_of (cols (calculate_indicators_frame d)) =
     (map_of (cols d))
       (''SMA_20'' \<mapsto> rolling_mean 20 (map Fin (Close d)),
        ''SMA_50'' \<mapsto> rolling_mean 50 (map Fin (Close d)),
        ''RSI'' \<mapsto> rsi_col (Close d),
        ''MACD'' \<mapsto> map Fin (macd_col (Close d)),
        ''Signal_Line'' \<mapsto> map Fin (ewm_mean 9 (macd_col (Close d))))"
  by (simp add: calculate_indicators_frame_def Let_def map_of_set_col Close_set_col)

lemma calculate_indicators_adds_sma: "has_col ''SMA_20'' (calculate_indicators_frame d)"
  by (simp add: has_col_def calculate_indicators_frame_cols)

section \<open>Which stage writes where\<close>

text \<open>
  Claim C9, as the code has it. \<open>backtest_strategy\<close> works on a copy: every frame of
  the store, the one it was given among them, is afterwards what it was before, and
  the result is a new frame. \<open>calculate_indicators\<close> writes into the frame it was
  given and returns that same frame: the five indicator columns are assigned in
  place, while the prices, every other column and every other frame stay as they
  were.
\<close>

theorem stage_frame_effects:
  assumes "r < length st"
  shows "(\<forall>r' st'. backtest_strategy r sma_short sma_long st = Inr (r', st') \<longrightarrow>
            r' = length st \<and> length st' = Suc (length st) \<and>
            (\<forall>a<length st. st' ! a = st ! a)) \<and>
         (\<forall>r' st'. calculate_indicators r st = (r', st') \<longrightarrow>
            r' = r \<and> length st' = length st \<and>
            (\<forall>a<length st. a \<noteq> r \<longrightarrow> st' ! a = st ! a) \<and>
            Close (st' ! r) = Close (st ! r) \<and> Open (st' ! r) = Open (st ! r) \<and>
            has_col ''SMA_20'' (st' ! r) \<and> has_col ''SMA_50'' (st' ! r) \<and>
            has_col ''RSI'' (st' ! r) \<and> has_col ''MACD'' (st' ! r) \<and>
            has_col ''Signal_Line'' (st' ! r) \<and>
            (\<forall>c. c \<notin> {''SMA_20'', ''SMA_50'', ''RSI'', ''MACD'', ''Signal_Line''} \<longrightarrow>
                 map_of (cols (st' ! r)) c = map_of (cols (st ! r)) c))"
    (is "(\<forall>r' st'. ?B r' st' \<longrightarrow> ?BC r' st') \<and> (\<forall>r' st'. ?I r' st' \<longrightarrow> ?IC r' st')")
proof (rule conjI)
  show "\<forall>r' st'. ?B r' st' \<longrightarrow> ?BC r' st'"
  proof (intro allI, rule impI)
    fix r' st'
    assume "?B r' st'"
    then obtain d where st': "st' = st @ [d]" and r': "r' = length st"
      by (auto simp: backtest_strategy_def split: sum.splits)
    have "st' ! a = st ! a" if "a < length st" for a
      using that by (simp add: st' nth_append)
    then show "?BC r' st'" by (simp add: r' st')
  qed
  show "\<forall>r' st'. ?I r' st' \<longrightarrow> ?IC r' st'"
  proof (intro allI, rule impI)
    fix r' st'
    assume "?I r' st'"
    then have r': "r' = r" and st': "st' = st[r := calculate_indicators_frame (st ! r)]"
      by (auto simp: calculate_indicators_def)
    from assms have new: "st' ! r = calculate_indicators_frame (st ! r)"
      by (simp add: st')
    have other: "st' ! a = st ! a" if "a \<noteq> r" for a
      using that by (simp add: st')
    have len: "length st' = length st" by (simp add: st')
    have prices: "Close (st' ! r) = Close (st ! r) \<and> Open (st' ! r) = Open (st ! r)"
      by (simp add: new calculate_indicators_frame_prices)
    have added: "has_col ''SMA_20'' (st' ! r) \<and> has_col ''SMA_50'' (st' ! r) \<and>
        has_col ''RSI'' (st' ! r) \<and> has_col ''MACD'' (st' ! r) \<and>
        has_col ''Signal_Line'' (st' ! r)"
      by (simp add: new has_col_def calculate_indicators_frame_cols)
    have kept: "map_of (cols (st' ! r)) c = map_of (cols (st ! r)) c"
      if "c \<notin> {''SMA_20'', ''SMA_50'', ''RSI'', ''MACD'', ''Signal_Line''}" for c
      using that by (simp add: new calculate_indicators_frame_cols)
    from r' len other prices added kept show "?IC r' st'" by blast
  qed
qed

theorem stage_frame_effects_witness:
  "(0::nat) < length [ex_frame] \<and>
   (\<exists>st'. backtest_strategy 0 1 2 [ex_frame] = Inr (1, st') \<and> st' ! 0 = ex_frame) \<and>
   (\<exists>st'. calculate_indicators 0 [ex_frame] = (0, st') \<and> length st' = 1 \<and>
          Close (st' ! 0) = Close ex_frame \<and> has_col ''RSI'' (st' ! 0) \<and>
          map_of (cols (st' ! 0)) ''Signal'' = map_of (cols ex_frame) ''Signal'')"
proof -
  have l: "(0::nat) < length [ex_frame]" by simp
  have b: "backtest_strategy 0 1 2 [ex_frame] = Inr (1, [ex_frame, ex_backtest])"
    unfolding backtest_strategy_def nth_Cons_0 ex_backtest_run by simp
  define st' where "st' = [calculate_indicators_frame ex_frame]"
  have c: "calculate_indicators 0 [ex_frame] = (0, st')"
    unfolding calculate_indicators_def st'_def by simp
  note eff = stage_frame_effects [OF l, of 1 2]
  from eff [THEN conjunct1, rule_format, OF b]
  have "\<forall>a<length [ex_frame]. [ex_frame, ex_backtest] ! a = [ex_frame] ! a"
    by (elim conjE)
  from this [rule_format, OF l] have p: "[ex_frame, ex_backtest] ! 0 = ex_frame"
    unfolding nth_Cons_0 .
  have notin: "''Signal'' \<notin> {''SMA_20'', ''SMA_50'', ''RSI'', ''MACD'', ''Signal_Line''}"
    by simp
  note e2 = eff [THEN conjunct2, rule_format, OF c]
  from e2 have q1: "length st' = length [ex_frame]" by (elim conjE)
  from e2 have q2: "Close (st' ! 0) = Close ([ex_frame] ! 0)" by (elim conjE)
  from e2 have q3: "has_col ''RSI'' (st' ! 0)" by (elim conjE)
  from e2 have "\<forall>c. c \<notin> {''SMA_20'', ''SMA_50'', ''RSI'', ''MACD'', ''Signal_Line''} \<longrightarrow>
      map_of (cols (st' ! 0)) c = map_of (cols ([ex_frame] ! 0)) c" by (elim conjE)
  from this [rule_format, OF notin]
  have q4: "map_of (cols (st' ! 0)) ''Signal'' = map_of (cols ([ex_frame] ! 0)) ''Signal''" .
  have first: "\<exists>st'. backtest_strategy 0 1 2 [ex_frame] = Inr (1, st') \<and> st' ! 0 = ex_frame"
    by (rule exI [of _ "[ex_frame, ex_backtest]"], rule conjI [OF b p])
  have second: "\<exists>st'. calculate_indicators 0 [ex_frame] = (0, st') \<and> length st' = 1 \<and>
          Close (st' ! 0) = Close ex_frame \<and> has_col ''RSI'' (st' ! 0) \<and>
          map_of (cols (st' ! 0)) ''Signal'' = map_of (cols ex_frame) ''Signal''"
    apply (rule exI [of _ st'])
    using c q1 q2 q3 q4 unfolding nth_Cons_0 by simp
  show ?thesis by (rule conjI [OF l conjI [OF first second]])
qed

theorem indicators_mutate_input_counterexample:
  "\<not> has_col ''SMA_20'' ex_frame \<and>
   (\<exists>st'. calculate_indicators 0 [ex_frame] = (0, st') \<and> has_col ''SMA_20'' (st' ! 0) \<and>
          st' ! 0 \<noteq> ex_frame)"
proof -
  have a: "\<not> has_col ''SMA_20'' ex_frame" by (simp add: has_col_def ex_frame_def)
  define d where "d = calculate_indicators_frame ex_frame"
  have c: "calculate_indicators 0 [ex_frame] = (0, [d])"
    unfolding calculate_indicators_def d_def by simp
  have h: "has_col ''SMA_20'' ([d] ! 0)"
    unfolding nth_Cons_0 d_def by (rule calculate_indicators_adds_sma)
  from a h have n: "[d] ! 0 \<noteq> ex_frame" by auto
  show ?thesis
    by (rule conjI [OF a], rule exI [of _ "[d]"], rule conjI [OF c conjI [OF h n]])
qed

section \<open>The Sharpe ratio\<close>

lemma risk_analysis_columns:
  assumes "get_col ''Cumulative_Strategy'' d = Inr cs" and "get_col ''Strategy_Return'' d = Inr rs"
  shows "risk_analysis d =
     Inr \<lparr>max_drawdown = series_min (drawdown cs),
          volatility = fmul (series_std rs) (Fin (sqrt 252)),
          sharpe_ratio = sharpe rs\<rparr>"
  using assms by (simp add: risk_analysis_def)

lemma sharpe_cases:
  assumes "series_mean rs = Fin m" and "series_std rs = Fin s"
  shows "sharpe rs =
     (if s \<noteq> 0 then Fin (m / s * sqrt 252)
      else if 0 < m then PInf else if m < 0 then NInf else NaN)"
  using assms by (simp add: sharpe_def)

lemma ex_flat_backtest_run: "backtest_strategy_frame ex_flat_frame 1 2 = Inr ex_flat_backtest"
  by code_simp

lemma ex_flat_returns:
  "get_col ''Strategy_Return'' ex_flat_backtest = Inr [NaN, NaN, Fin 0, Fin 0]"
  "get_col ''Cumulative_Strategy'' ex_flat_backtest = Inr [NaN, NaN, Fin 1, Fin 1]"
  by (simp_all add: get_col_def ex_flat_backtest_def)

lemma ex_flat_mean: "series_mean [NaN, NaN, Fin 0, Fin 0] = Fin 0"
  by (simp add: series_mean_def dropna_def fsum_def)

lemma ex_flat_std: "series_std [NaN, NaN, Fin 0, Fin 0] = Fin 0"
  by (simp add: series_std_def series_mean_def dropna_def fsum_def fsub_def)

lemma ex_backtest_returns:
  "get_col ''Strategy_Return'' ex_backtest = Inr [NaN, NaN, Fin (- (1 / 2)), Fin (- 3), Fin (- (1 / 2))]"
  "get_col ''Cumulative_Strategy'' ex_backtest = Inr [NaN, NaN, Fin (1 / 2), Fin (- 1), Fin (- (1 / 2))]"
  by (simp_all add: get_col_def ex_backtest_def)

lemma ex_backtest_mean:
  "series_mean [NaN, NaN, Fin (- (1 / 2)), Fin (- 3), Fin (- (1 / 2))] = Fin (- (4 / 3))"
  by (simp add: series_mean_def dropna_def fsum_def)

lemma ex_backtest_std:
  "series_std [NaN, NaN, Fin (- (1 / 2)), Fin (- 3), Fin (- (1 / 2))] = Fin (sqrt (25 / 12))"
  by (simp add: series_std_def series_mean_def dropna_def fsum_def fsub_def)

text \<open>
  Claim C7, as the code has it. The risk block raises nothing: whenever the backtest
  frame has the columns it reads, a Sharpe ratio is returned. With a finite mean and a
  finite standard deviation of the strategy returns it is \<open>mean / std \<times> sqrt 252\<close> when the
  standard deviation is not zero; when it is zero the value is NaN for a zero mean and
  an infinity with the sign of the mean otherwise.
\<close>

theorem sharpe_ratio_value:
  assumes "get_col ''Cumulative_Strategy'' d = Inr cs" and "get_col ''Strategy_Return'' d = Inr rs"
  shows "\<exists>res. risk_analysis d = Inr res \<and>
     (\<forall>m s. series_mean rs = Fin m \<and> series_std rs = Fin s \<longrightarrow>
        sharpe_ratio res =
          (if s \<noteq> 0 then Fin (m / s * sqrt 252)
           else if 0 < m then PInf else if m < 0 then NInf else NaN))"
proof -
  let ?res = "\<lparr>max_drawdown = series_min (drawdown cs),
          volatility = fmul (series_std rs) (Fin (sqrt 252)),
          sharpe_ratio = sharpe rs\<rparr>"
  have run: "risk_analysis d = Inr ?res" by (rule risk_analysis_columns [OF assms])
  have "sharpe_ratio ?res =
          (if s \<noteq> 0 then Fin (m / s * sqrt 252)
           else if 0 < m then PInf else if m < 0 then NInf else NaN)"
    if "series_mean rs = Fin m \<and> series_std rs = Fin s" for m s
    using that by (simp add: sharpe_cases [of rs m s])
  with run show ?thesis by blast
qed

theorem sharpe_ratio_value_witness:
  "get_col ''Cumulative_Strategy'' ex_backtest =
     Inr [NaN, NaN, Fin (1 / 2), Fin (- 1), Fin (- (1 / 2))] \<and>
   get_col ''Strategy_Return'' ex_backtest =
     Inr [NaN, NaN, Fin (- (1 / 2)), Fin (- 3), Fin (- (1 / 2))] \<and>
   series_mean [NaN, NaN, Fin (- (1 / 2)), Fin (- 3), Fin (- (1 / 2))] = Fin (- (4 / 3)) \<and>
   series_std [NaN, NaN, Fin (- (1 / 2)), Fin (- 3), Fin (- (1 / 2))] = Fin (sqrt (25 / 12)) \<and>
   (\<exists>res. risk_analysis ex_backtest = Inr res \<and>
      sharpe_ratio res = Fin (- (4 / 3) / sqrt (25 / 12) * sqrt 252))"
proof -
  from sharpe_ratio_value [OF ex_backtest_returns(2) ex_backtest_returns(1)]
  obtain res where run: "risk_analysis ex_backtest = Inr res" and
    v: "\<forall>m s. series_mean [NaN, NaN, Fin (- (1 / 2)), Fin (- 3), Fin (- (1 / 2))] = Fin m \<and>
           series_std [NaN, NaN, Fin (- (1 / 2)), Fin (- 3), Fin (- (1 / 2))] = Fin s \<longrightarrow>
        sharpe_ratio res =
          (if s \<noteq> 0 then Fin (m / s * sqrt 252)
           else if 0 < m then PInf else if m < 0 then NInf else NaN)"
    by (elim exE conjE)
  have nz: "sqrt (25 / 12) \<noteq> (0::real)" by simp
  from v [rule_format, OF conjI [OF ex_backtest_mean ex_backtest_std]] nz
  have s: "sharpe_ratio res = Fin (- (4 / 3) / sqrt (25 / 12) * sqrt 252)"
    by (simp only: if_True if_False simp_thms)
  show ?thesis
    apply (intro conjI ex_backtest_returns ex_backtest_mean ex_backtest_std)
    apply (rule exI [of _ res], rule conjI [OF run s])
    done
qed

theorem sharpe_zero_deviation_counterexample:
  "backtest_strategy_frame ex_flat_frame 1 2 = Inr ex_flat_backtest \<and>
   get_col ''Strategy_Return'' ex_flat_backtest = Inr [NaN, NaN, Fin 0, Fin 0] \<and>
   series_std [NaN, NaN, Fin 0, Fin 0] = Fin 0 \<and>
   (\<exists>res. risk_analysis ex_flat_backtest = Inr res \<and> sharpe_ratio res = NaN)"
proof -
  have "sharpe [NaN, NaN, Fin 0, Fin 0] = NaN"
    by (simp add: sharpe_cases [OF ex_flat_mean ex_flat_std])
  then have "\<exists>res. risk_analysis ex_flat_backtest = Inr res \<and> sharpe_ratio res = NaN"
    by (simp add: risk_analysis_columns [OF ex_flat_returns(2) ex_flat_returns(1)])
  then show ?thesis
    by (intro conjI ex_flat_backtest_run ex_flat_returns(1) ex_flat_std)
qed

section \<open>Drawdown\<close>




























end
